theory Spec2Isabelle
  imports Main
begin

section \<open>Python primitives used by the source file\<close>

text \<open>
  The exceptions the two functions can raise. \<open>IndexError\<close> comes from indexing the
  result of \<open>str.split\<close>, \<open>UnboundLocalError\<close> from reading the local variable
  \<open>lab\<close> when no branch of the \<open>if\<close>/\<open>elif\<close> chain assigned it, \<open>RegexError\<close>
  (Python's \<open>re.error\<close>) from \<open>re.finditer\<close> on a pattern that does not compile, and
  \<open>AttributeError\<close> from reading the column \<open>glycan\<close> of a frame that has no
  columns.
\<close>

datatype error = IndexError | UnboundLocalError | RegexError | AttributeError

text \<open>
  A cell of the columns \<open>kingdom\<close> and \<open>species\<close> of the table \<open>df_species\<close>: a
  string, or the missing value of pandas (the float \<open>nan\<close>). The source reads a cell
  only through \<open>str(k)\<close>.
\<close>

datatype cell = Text string | NaN

fun py_str :: "cell \<Rightarrow> string" where
  "py_str (Text s) = s"
| "py_str NaN = ''nan''"

text \<open>One row of \<open>df_species\<close>; the table is the list of its rows, in index order.\<close>

record row =
  glycan :: string
  kingdom :: cell
  species :: cell

text \<open>\<open>p in s\<close> on Python strings: \<open>p\<close> occurs in \<open>s\<close> as a contiguous substring.\<close>

fun starts_with :: "string \<Rightarrow> string \<Rightarrow> bool" where
  "starts_with [] s = True"
| "starts_with (p # ps) [] = False"
| "starts_with (p # ps) (c # cs) = (p = c \<and> starts_with ps cs)"

fun py_in :: "string \<Rightarrow> string \<Rightarrow> bool" where
  "py_in p [] = (p = [])"
| "py_in p (c # cs) = (starts_with p (c # cs) \<or> py_in p cs)"

text \<open>\<open>s[a:b]\<close> for indices \<open>a\<close>, \<open>b\<close> that are not negative.\<close>

definition py_slice :: "string \<Rightarrow> nat \<Rightarrow> nat \<Rightarrow> string" where
  "py_slice s a b = take (b - a) (drop a s)"

text \<open>\<open>s.split(c)\<close> for a separator of one character: never an empty list.\<close>

fun py_split :: "char \<Rightarrow> string \<Rightarrow> string list" where
  "py_split c [] = [[]]"
| "py_split c (x # xs) =
     (if x = c then [] # py_split c xs
      else (case py_split c xs of
              [] \<Rightarrow> [[x]]
            | w # ws \<Rightarrow> (x # w) # ws))"

text \<open>\<open>xs[i]\<close> for an index that is not negative: out of range raises.\<close>

definition py_index :: "'a list \<Rightarrow> nat \<Rightarrow> error + 'a" where
  "py_index xs i = (if i < length xs then Inr (xs ! i) else Inl IndexError)"

section \<open>The taxonomic filter\<close>

text \<open>
  \<open>df_species[filter_list]\<close> (lines 17 and 21, 47 and 51), where \<open>filter_list\<close> is
  the \<open>pd.Series\<close> of one truth value per row. A series of truth values is a mask: the
  frame keeps the rows at which it is true, in their order. The series made from a table
  without rows is empty and holds no truth value; pandas then takes it for a list of
  column names, an empty one, and the frame that results has no columns at all. That frame
  is \<open>None\<close> here.
\<close>

definition boolean_index :: "row list \<Rightarrow> bool list \<Rightarrow> row list option" where
  "boolean_index df_species filter_list =
     (if filter_list = [] then None
      else Some (map fst (filter snd (zip df_species filter_list))))"

text \<open>
  Lines 11-21 of \<open>main_v_side_branch\<close> and lines 42-51 of \<open>characterize_context\<close> are
  the same code: the frame \<open>glycans_df\<close> of the rows kept by \<open>taxonomy_filter\<close> and
  \<open>taxonomy_value\<close>.
\<close>

definition filter_rows :: "row list \<Rightarrow> string \<Rightarrow> string \<Rightarrow> row list option" where
  "filter_rows df_species taxonomy_filter taxonomy_value =
     (if taxonomy_value = ''All'' then Some df_species
      else if taxonomy_filter = ''Kingdom''
        then boolean_index df_species
               (map (\<lambda>r. py_in taxonomy_value (py_str (kingdom r))) df_species)
        else boolean_index df_species
               (map (\<lambda>r. py_in taxonomy_value (py_str (species r))) df_species))"

text \<open>
  \<open>glycans_df.glycan.values.tolist()\<close> (lines 22 and 54): the column \<open>glycan\<close> of the
  kept rows as a list; on the frame without columns the attribute \<open>glycan\<close> does not
  exist and reading it raises.
\<close>

definition filtered_glycans :: "row list \<Rightarrow> string \<Rightarrow> string \<Rightarrow> error + string list" where
  "filtered_glycans df_species taxonomy_filter taxonomy_value =
     (case filter_rows df_species taxonomy_filter taxonomy_value of
        None \<Rightarrow> Inl AttributeError
      | Some glycans_df \<Rightarrow> Inr (map glycan glycans_df))"

section \<open>The Main/Side Counter\<close>

text \<open>
  \<open>re.finditer\<close> belongs to Python's library, not to this repository: it is a parameter
  of the model. \<open>finditer pattern string\<close> is the list of \<open>m.start()\<close> of the matches
  that \<open>re.finditer(pattern, string)\<close> yields, in the order it yields them, or the
  error it raises when the pattern does not compile.
\<close>

type_synonym matcher = "string \<Rightarrow> string \<Rightarrow> error + nat list"

text \<open>
  The inner loop \<open>for i in starts\<close> (lines 28-35) on one glycan, with the loop state
  \<open>init\<close>, \<open>main\<close>, \<open>side\<close> passed explicitly. The two counters start at 0 and
  are only ever incremented, so they are natural numbers.
\<close>

fun scan_starts :: "string \<Rightarrow> nat list \<Rightarrow> nat \<Rightarrow> nat \<times> nat \<Rightarrow> nat \<times> nat" where
  "scan_starts g [] init (main, side) = (main, side)"
| "scan_starts g (i # starts) init (main, side) =
     (let gly = py_slice g init i in
      if py_in ''['' gly \<and> \<not> py_in '']'' gly
      then scan_starts g starts i (main, side + 1)
      else scan_starts g starts i (main + 1, side))"

text \<open>The outer loop \<open>for k in range(len(glycan_list))\<close> (lines 26-35).\<close>

fun scan_glycans :: "matcher \<Rightarrow> string \<Rightarrow> string list \<Rightarrow> nat \<times> nat \<Rightarrow> error + nat \<times> nat" where
  "scan_glycans finditer glycoletter [] ms = Inr ms"
| "scan_glycans finditer glycoletter (g # glycan_list) ms =
     (case finditer glycoletter g of
        Inl e \<Rightarrow> Inl e
      | Inr starts \<Rightarrow>
          scan_glycans finditer glycoletter glycan_list (scan_starts g starts 0 ms))"

definition main_v_side_branch ::
  "matcher \<Rightarrow> row list \<Rightarrow> string \<Rightarrow> string \<Rightarrow> string \<Rightarrow> error + nat \<times> nat" where
  "main_v_side_branch finditer df_species glycoletter taxonomy_filter taxonomy_value =
     (case filtered_glycans df_species taxonomy_filter taxonomy_value of
        Inl e \<Rightarrow> Inl e
      | Inr glycan_list \<Rightarrow> scan_glycans finditer glycoletter glycan_list (0, 0))"

section \<open>The Context Characterizer\<close>

text \<open>
  One list comprehension of lines 57, 60 and 63:
  \<open>[k.split('*')[out] for k in pool if k.split('*')[key] == glycoletter]\<close>.
  The condition is evaluated first; either index can raise \<open>IndexError\<close>, which ends
  the comprehension.
\<close>

fun pick :: "nat \<Rightarrow> nat \<Rightarrow> string \<Rightarrow> string list \<Rightarrow> error + string list" where
  "pick out key glycoletter [] = Inr []"
| "pick out key glycoletter (k # pool) =
     (case py_index (py_split CHR ''*'' k) key of
        Inl e \<Rightarrow> Inl e
      | Inr f \<Rightarrow>
          if f = glycoletter then
            (case py_index (py_split CHR ''*'' k) out of
               Inl e \<Rightarrow> Inl e
             | Inr v \<Rightarrow>
                 (case pick out key glycoletter pool of
                    Inl e \<Rightarrow> Inl e
                  | Inr vs \<Rightarrow> Inr (v # vs)))
          else pick out key glycoletter pool)"

text \<open>
  The \<open>if\<close>/\<open>elif\<close> chain on \<open>mode\<close> (lines 56-64). It returns the new \<open>pool\<close> and
  the local variable \<open>lab\<close>, which stays unbound (\<open>None\<close>) when no branch is taken; the
  pool is then left as it was.
\<close>

definition select_mode ::
  "string \<Rightarrow> string \<Rightarrow> string list \<Rightarrow> error + string list \<times> string option" where
  "select_mode mode glycoletter pool =
     (if mode = ''bond'' then
        (case pick 0 1 glycoletter pool of
           Inl e \<Rightarrow> Inl e
         | Inr pool' \<Rightarrow>
             Inr (pool', Some (''Observed monosaccharides making bond '' @ glycoletter)))
      else if mode = ''sugar'' then
        (case pick 2 0 glycoletter pool of
           Inl e \<Rightarrow> Inl e
         | Inr pool' \<Rightarrow>
             Inr (pool', Some (''Observed monosaccharides paired with '' @ glycoletter)))
      else if mode = ''sugarbond'' then
        (case pick 1 0 glycoletter pool of
           Inl e \<Rightarrow> Inl e
         | Inr pool' \<Rightarrow>
             Inr (pool', Some (''Observed bonds made by '' @ glycoletter)))
      else Inr (pool, None))"

text \<open>
  \<open>collections.Counter\<close> as an association list in insertion order: a dict keeps its
  keys in the order of their first insertion, and counting an element again leaves its
  key where it is.
\<close>

fun counter_add :: "'a \<Rightarrow> ('a \<times> nat) list \<Rightarrow> ('a \<times> nat) list" where
  "counter_add x [] = [(x, 1)]"
| "counter_add x ((k, c) # kcs) =
     (if k = x then (k, c + 1) # kcs else (k, c) # counter_add x kcs)"

definition Counter :: "'a list \<Rightarrow> ('a \<times> nat) list" where
  "Counter xs = foldl (\<lambda>c x. counter_add x c) [] xs"

text \<open>
  \<open>most_common()\<close> is \<open>sorted(self.items(), key=itemgetter(1), reverse=True)\<close>. A
  reversed sort in CPython reverses the list, sorts it stably in ascending order of the
  key and reverses the result. \<open>sort_key\<close> is a stable insertion sort.
\<close>

definition most_common :: "('a \<times> nat) list \<Rightarrow> ('a \<times> nat) list" where
  "most_common c = rev (sort_key snd (rev c))"

text \<open>
  The pool of lines 54-55: \<open>link_find\<close> on every filtered glycan, flattened.
  \<open>link_find\<close> is defined in \<open>glycan_processing_helpers\<close>, outside the source file: it
  is a parameter, a function from a glycan to the list of its tokens.
\<close>

definition link_pool ::
  "(string \<Rightarrow> string list) \<Rightarrow> row list \<Rightarrow> string \<Rightarrow> string \<Rightarrow> error + string list" where
  "link_pool link_find df_species taxonomy_filter taxonomy_value =
     (case filtered_glycans df_species taxonomy_filter taxonomy_value of
        Inl e \<Rightarrow> Inl e
      | Inr glycan_list \<Rightarrow> Inr (concat (map link_find glycan_list)))"

definition characterize_context ::
  "(string \<Rightarrow> string list) \<Rightarrow> row list \<Rightarrow> string \<Rightarrow> string \<Rightarrow> string \<Rightarrow> string
     \<Rightarrow> error + string \<times> string list \<times> nat list" where
  "characterize_context link_find df_species glycoletter mode taxonomy_filter taxonomy_value =
     (case link_pool link_find df_species taxonomy_filter taxonomy_value of
        Inl e \<Rightarrow> Inl e
      | Inr flat \<Rightarrow>
          (case select_mode mode glycoletter flat of
             Inl e \<Rightarrow> Inl e
           | Inr (pool, lab) \<Rightarrow>
               (let cou = most_common (Counter pool);
                    cou_k = map fst (filter (\<lambda>k. 10 < snd k) cou);
                    cou_v = map snd (filter (\<lambda>k. 10 < snd k) cou)
                in case lab of
                     None \<Rightarrow> Inl UnboundLocalError
                   | Some l \<Rightarrow>
                       Inr (l @ '' ('' @ taxonomy_filter @ '' = '' @ taxonomy_value @ '')'',
                            cou_k, cou_v))))"

section \<open>The claims' own notions\<close>

text \<open>
  The scan window of occurrence number \<open>j\<close> (counted from 0) of a glycan \<open>g\<close> whose
  occurrences start at \<open>starts\<close>: from the start of the previous occurrence, or from
  the start of the string for the first one, up to the start of occurrence \<open>j\<close>.
\<close>

definition window :: "string \<Rightarrow> nat list \<Rightarrow> nat \<Rightarrow> string" where
  "window g starts j = py_slice g (if j = 0 then 0 else starts ! (j - 1)) (starts ! j)"

definition is_side :: "string \<Rightarrow> nat list \<Rightarrow> nat \<Rightarrow> bool" where
  "is_side g starts j =
     (CHR ''['' \<in> set (window g starts j) \<and> CHR '']'' \<notin> set (window g starts j))"

definition side_count :: "string \<Rightarrow> nat list \<Rightarrow> nat" where
  "side_count g starts = length (filter (is_side g starts) [0..<length starts])"

definition main_count :: "string \<Rightarrow> nat list \<Rightarrow> nat" where
  "main_count g starts = length (filter (\<lambda>j. \<not> is_side g starts j) [0..<length starts])"

text \<open>A bond triple token \<open>sugarA*bond*sugarB\<close>.\<close>

definition token :: "string \<times> string \<times> string \<Rightarrow> string" where
  "token t = (case t of (a, b, c) \<Rightarrow> a @ ''*'' @ b @ ''*'' @ c)"

definition star_free :: "string \<times> string \<times> string \<Rightarrow> bool" where
  "star_free t =
     (case t of (a, b, c) \<Rightarrow> CHR ''*'' \<notin> set a \<and> CHR ''*'' \<notin> set b \<and> CHR ''*'' \<notin> set c)"

text \<open>The position at which a value first appears in a list.\<close>

definition first_pos :: "'a \<Rightarrow> 'a list \<Rightarrow> nat" where
  "first_pos x xs = length (takeWhile (\<lambda>y. y \<noteq> x) xs)"

text \<open>The description of the filter that ends the label (line 69).\<close>

definition filter_suffix :: "string \<Rightarrow> string \<Rightarrow> string" where
  "filter_suffix taxonomy_filter taxonomy_value =
     '' ('' @ taxonomy_filter @ '' = '' @ taxonomy_value @ '')''"

text \<open>
  Lines 65-67 on a given pool: the tally in descending order, cut at the threshold, as
  the pair of \<open>cou_k\<close> and \<open>cou_v\<close>.
\<close>

definition above_threshold :: "string list \<Rightarrow> string list \<times> nat list" where
  "above_threshold pool =
     (let cou = most_common (Counter pool)
      in (map fst (filter (\<lambda>k. 10 < snd k) cou), map snd (filter (\<lambda>k. 10 < snd k) cou)))"

text \<open>The field of the table that a value of \<open>taxonomy_filter\<close> names.\<close>

definition filter_field :: "string \<Rightarrow> row \<Rightarrow> string" where
  "filter_field taxonomy_filter r =
     py_str (if taxonomy_filter = ''Kingdom'' then kingdom r else species r)"

text \<open>A token with the three fields of a bond triple.\<close>

definition is_triple :: "string \<Rightarrow> bool" where
  "is_triple k = (3 \<le> length (py_split CHR ''*'' k))"

text \<open>
  What the data model says of \<open>link_find\<close> on a glycan \<open>s\<close>: every token is a
  bond triple, and every field of it is text of the glycan.
\<close>

definition fields_occur :: "(string \<Rightarrow> string list) \<Rightarrow> string \<Rightarrow> bool" where
  "fields_occur link_find s =
     list_all (\<lambda>k. is_triple k \<and> list_all (\<lambda>f. py_in f s) (py_split CHR ''*'' k))
       (link_find s)"

section \<open>Concrete collaborators for the examples\<close>

text \<open>
  A pattern in which no character has a special meaning to \<open>re\<close>: none of
  \<open>. ^ $ * + ? { [ | ( )\<close> and no backslash. (\<open>]\<close> and \<open>}\<close> are special only after
  the bracket they close.)
\<close>

definition literal_pattern :: "string \<Rightarrow> bool" where
  "literal_pattern p = (\<forall>c \<in> set p. c \<notin> set ''.^$*+?{[|()'' \<and> c \<noteq> CHR 0x5C)"

text \<open>
  \<open>re.finditer\<close> on a literal pattern: the leftmost occurrences of the pattern as
  text, none overlapping the one before. The empty pattern matches once at every
  position, the end included. On a pattern that is not literal \<open>re.finditer\<close> does
  something else, and nothing below applies this function to one.
\<close>

fun plain_scan :: "string \<Rightarrow> nat \<Rightarrow> nat \<Rightarrow> string \<Rightarrow> nat list" where
  "plain_scan p pos skip [] = (if p = [] then [pos] else [])"
| "plain_scan p pos skip (c # cs) =
     (if 0 < skip then plain_scan p (pos + 1) (skip - 1) cs
      else if starts_with p (c # cs) then pos # plain_scan p (pos + 1) (length p - 1) cs
      else plain_scan p (pos + 1) 0 cs)"

definition plain_finditer :: matcher where
  "plain_finditer p s = Inr (plain_scan p 0 0 s)"

text \<open>A matcher for a pattern that does not compile, such as \<open>[\<close>.\<close>

definition broken_finditer :: matcher where
  "broken_finditer p s = Inl RegexError"

text \<open>
  What \<open>re.finditer\<close> does on two patterns that are not literal. The pattern
  \<open>b1-?\<close> is \<open>b1\<close> followed by an optional \<open>-\<close>: the starts below are those of its
  matches in the three glycans of the examples. The pattern \<open>*\<close> repeats nothing and
  does not compile. Every other pattern used with this matcher is literal.
\<close>

definition recorded_matches :: "((string \<times> string) \<times> nat list) list" where
  "recorded_matches =
     [((''b1-?'', ''Gal(b1-4)GlcNAc''), [4]),
      ((''b1-?'', ''Man(b1-4)GlcNAc(b1-4)GlcNAc''), [4, 16]),
      ((''b1-?'', ''Gal(b1-4)[Fuc(a1-3)]GlcNAc''), [4])]"

definition recorded_finditer :: matcher where
  "recorded_finditer p s =
     (if p = ''*'' then Inl RegexError
      else (case map_of recorded_matches (p, s) of
              Some starts \<Rightarrow> Inr starts
            | None \<Rightarrow> plain_finditer p s))"

text \<open>Four glycans with the bond triples \<open>link_find\<close> gives for them.\<close>

definition demo_links :: "(string \<times> string list) list" where
  "demo_links =
     [(''Gal(b1-4)GlcNAc'', [''Gal*b1-4*GlcNAc'']),
      (''Man(b1-4)GlcNAc(b1-4)GlcNAc'', [''Man*b1-4*GlcNAc'', ''GlcNAc*b1-4*GlcNAc'']),
      (''Gal(b1-4)[Fuc(a1-3)]GlcNAc'', [''Gal*b1-4*GlcNAc'', ''Fuc*a1-3*GlcNAc'']),
      (''Glc(b1-4)Glc'', [''Glc*b1-4*Glc''])]"

definition demo_link_find :: "string \<Rightarrow> string list" where
  "demo_link_find g = (case map_of demo_links g of None \<Rightarrow> [] | Some ts \<Rightarrow> ts)"

definition row_a :: row where
  "row_a = \<lparr>glycan = ''Gal(b1-4)GlcNAc'', kingdom = Text ''Animalia'',
            species = Text ''Homo_sapiens''\<rparr>"

definition row_b :: row where
  "row_b = \<lparr>glycan = ''Man(b1-4)GlcNAc(b1-4)GlcNAc'', kingdom = Text ''Plantae'',
            species = Text ''Zea_mays''\<rparr>"

definition row_c :: row where
  "row_c = \<lparr>glycan = ''Gal(b1-4)[Fuc(a1-3)]GlcNAc'', kingdom = Text ''Animalia'',
            species = NaN\<rparr>"

definition small_table :: "row list" where
  "small_table = [row_a, row_b, row_c]"

text \<open>A glycan with two side branches.\<close>

definition row_e :: row where
  "row_e = \<lparr>glycan = ''Gal(b1-4)[Fuc(a1-3)]GlcNAc(b1-4)[Fuc(a1-6)]GlcNAc'',
            kingdom = Text ''Animalia'', species = Text ''Homo_sapiens''\<rparr>"

definition row_d :: row where
  "row_d = \<lparr>glycan = ''Glc(b1-4)Glc'', kingdom = Text ''Plantae'',
            species = Text ''Zea_mays''\<rparr>"

definition big_table :: "row list" where
  "big_table = replicate 11 row_b @ [row_c] @ replicate 11 row_a @ [row_d]"

text \<open>The bond triples of \<open>big_table\<close>, in the order of its rows.\<close>

definition big_triples :: "(string \<times> string \<times> string) list" where
  "big_triples =
     concat (replicate 11 [(''Man'', ''b1-4'', ''GlcNAc''), (''GlcNAc'', ''b1-4'', ''GlcNAc'')])
     @ [(''Gal'', ''b1-4'', ''GlcNAc''), (''Fuc'', ''a1-3'', ''GlcNAc'')]
     @ replicate 11 (''Gal'', ''b1-4'', ''GlcNAc'')
     @ [(''Glc'', ''b1-4'', ''Glc'')]"

text \<open>The sugars that make the bond \<open>b1-4\<close> in \<open>big_table\<close>, in the order of the pool.\<close>

definition big_selected :: "string list" where
  "big_selected =
     concat (replicate 11 [''Man'', ''GlcNAc'']) @ replicate 12 ''Gal'' @ [''Glc'']"

section \<open>Auxiliary notions for the proofs\<close>

text \<open>The distinct values of a list in the order of their first appearance.\<close>

fun first_seen :: "'a list \<Rightarrow> 'a list" where
  "first_seen [] = []"
| "first_seen (x # xs) = x # filter (\<lambda>y. y \<noteq> x) (first_seen xs)"

text \<open>The sum of the counts that an association list holds for a key.\<close>

definition cnt :: "('a \<times> nat) list \<Rightarrow> 'a \<Rightarrow> nat" where
  "cnt c k = sum_list (map snd (filter (\<lambda>kv. fst kv = k) c))"

section \<open>Lemmas\<close>

subsection \<open>Substrings\<close>

lemma starts_with_iff: "starts_with p s \<longleftrightarrow> (\<exists>t. s = p @ t)"
  by (induction p s rule: starts_with.induct) auto

lemma py_in_iff: "py_in p s \<longleftrightarrow> (\<exists>a b. s = a @ p @ b)"
proof (induction s)
  case Nil
  then show ?case by auto
next
  case (Cons c cs)
  show ?case
  proof
    assume "py_in p (c # cs)"
    then consider "starts_with p (c # cs)" | "py_in p cs" by auto
    then show "\<exists>a b. c # cs = a @ p @ b"
    proof cases
      case 1
      then obtain t where "c # cs = p @ t" by (auto simp: starts_with_iff)
      then have "c # cs = [] @ p @ t" by simp
      then show ?thesis by blast
    next
      case 2
      with Cons obtain a b where "cs = a @ p @ b" by auto
      then have "c # cs = (c # a) @ p @ b" by simp
      then show ?thesis by blast
    qed
  next
    assume "\<exists>a b. c # cs = a @ p @ b"
    then obtain a b where ab: "c # cs = a @ p @ b" by auto
    show "py_in p (c # cs)"
    proof (cases a)
      case Nil
      with ab have "starts_with p (c # cs)" by (auto simp: starts_with_iff)
      then show ?thesis by simp
    next
      case (Cons x a')
      with ab have "cs = a' @ p @ b" by simp
      with Cons.IH have "py_in p cs" by blast
      then show ?thesis by simp
    qed
  qed
qed

lemma py_in_single: "py_in [c] s \<longleftrightarrow> c \<in> set s"
  by (induction s) auto

subsection \<open>The scan of one glycan\<close>

lemma scan_starts_zip:
  "scan_starts g starts init (m, s) =
     (m + length (filter (\<lambda>(a, b). \<not> (CHR ''['' \<in> set (py_slice g a b) \<and> CHR '']'' \<notin> set (py_slice g a b))) (zip (init # starts) starts)),
      s + length (filter (\<lambda>(a, b). CHR ''['' \<in> set (py_slice g a b) \<and> CHR '']'' \<notin> set (py_slice g a b)) (zip (init # starts) starts)))"
  by (induction starts arbitrary: init m s) (auto simp: py_in_single Let_def)

lemma zip_shift_nth:
  "zip (0 # starts) starts = map (\<lambda>j. (if j = 0 then 0 else starts ! (j - 1), starts ! j)) [0..<length starts]"
  by (rule nth_equalityI) (auto simp: nth_Cons')

lemma side_count_zip:
  "side_count g starts = length (filter (\<lambda>(a, b). CHR ''['' \<in> set (py_slice g a b) \<and> CHR '']'' \<notin> set (py_slice g a b)) (zip (0 # starts) starts))"
  unfolding side_count_def zip_shift_nth filter_map length_map
  by (rule arg_cong[where f=length], rule filter_cong) (auto simp: is_side_def window_def)

lemma main_count_zip:
  "main_count g starts = length (filter (\<lambda>(a, b). \<not> (CHR ''['' \<in> set (py_slice g a b) \<and> CHR '']'' \<notin> set (py_slice g a b))) (zip (0 # starts) starts))"
  unfolding main_count_def zip_shift_nth filter_map length_map
  by (rule arg_cong[where f=length], rule filter_cong) (auto simp: is_side_def window_def)

lemma scan_starts_counts:
  "scan_starts g starts 0 (m, s) = (m + main_count g starts, s + side_count g starts)"
  by (simp only: scan_starts_zip main_count_zip side_count_zip)

lemma main_plus_side_length: "main_count g starts + side_count g starts = length starts"
  unfolding main_count_def side_count_def
  using sum_length_filter_compl[of "is_side g starts" "[0..<length starts]"] by simp

lemma scan_glycans_counts:
  "\<forall>g \<in> set gs. finditer p g = Inr (occ g) \<Longrightarrow>
   scan_glycans finditer p gs (m, s) =
     Inr (m + sum_list (map (\<lambda>g. main_count g (occ g)) gs),
          s + sum_list (map (\<lambda>g. side_count g (occ g)) gs))"
  by (induction gs arbitrary: m s) (auto simp: scan_starts_counts)

subsection \<open>Splitting a token\<close>

lemma py_split_no_sep: "c \<notin> set s \<Longrightarrow> py_split c s = [s]"
  by (induction s) auto

lemma py_split_not_Nil: "py_split c s \<noteq> []"
  by (induction s) (auto split: list.splits)

lemma py_split_append:
  "c \<notin> set a \<Longrightarrow> py_split c (a @ c # rest) = a # py_split c rest"
  by (induction a) (auto split: list.splits)

lemma split_token:
  "star_free (a, b, c) \<Longrightarrow> py_split CHR ''*'' (token (a, b, c)) = [a, b, c]"
  by (simp add: star_free_def token_def py_split_append py_split_no_sep)

lemma index_token:
  "star_free (a, b, c) \<Longrightarrow> py_index (py_split CHR ''*'' (token (a, b, c))) 0 = Inr a"
  "star_free (a, b, c) \<Longrightarrow> py_index (py_split CHR ''*'' (token (a, b, c))) 1 = Inr b"
  "star_free (a, b, c) \<Longrightarrow> py_index (py_split CHR ''*'' (token (a, b, c))) 2 = Inr c"
  by (simp_all add: split_token py_index_def)

lemma index_token_Suc:
  "star_free (a, b, c) \<Longrightarrow> py_index (py_split CHR ''*'' (token (a, b, c))) (Suc 0) = Inr b"
  by (simp add: split_token py_index_def)

lemma pick_bond:
  "\<forall>t \<in> set ts. star_free t \<Longrightarrow>
   pick 0 (Suc 0) g (map token ts) = Inr (map fst (filter (\<lambda>t. fst (snd t) = g) ts))"
  by (induction ts) (auto simp: index_token index_token_Suc)

lemma pick_sugar:
  "\<forall>t \<in> set ts. star_free t \<Longrightarrow>
   pick 2 0 g (map token ts) = Inr (map (\<lambda>t. snd (snd t)) (filter (\<lambda>t. fst t = g) ts))"
  by (induction ts) (auto simp: index_token index_token_Suc)

lemma pick_sugarbond:
  "\<forall>t \<in> set ts. star_free t \<Longrightarrow>
   pick (Suc 0) 0 g (map token ts) =
     Inr (map (\<lambda>t. fst (snd t)) (filter (\<lambda>t. fst t = g) ts))"
  by (induction ts) (auto simp: index_token index_token_Suc)

subsection \<open>The counter\<close>

lemma keys_counter_add:
  "map fst (counter_add x c) = (if x \<in> set (map fst c) then map fst c else map fst c @ [x])"
  by (induction c) (force+)

lemma keys_foldl_counter_add:
  "map fst (foldl (\<lambda>c x. counter_add x c) c xs) =
     map fst c @ filter (\<lambda>y. y \<notin> set (map fst c)) (first_seen xs)"
proof (induction xs arbitrary: c)
  case Nil
  then show ?case by simp
next
  case (Cons x xs)
  show ?case
  proof (cases "x \<in> set (map fst c)")
    case True
    then have "filter (\<lambda>y. y \<notin> set (map fst c)) (filter (\<lambda>y. y \<noteq> x) (first_seen xs)) =
               filter (\<lambda>y. y \<notin> set (map fst c)) (first_seen xs)"
      by (auto intro: filter_cong)
    with True show ?thesis by (simp add: Cons.IH keys_counter_add)
  next
    case False
    have "filter (\<lambda>y. y \<notin> set (map fst c @ [x])) (first_seen xs) =
          filter (\<lambda>y. y \<notin> set (map fst c)) (filter (\<lambda>y. y \<noteq> x) (first_seen xs))"
      by (auto intro: filter_cong)
    with False show ?thesis by (simp add: Cons.IH keys_counter_add)
  qed
qed

lemma keys_Counter: "map fst (Counter xs) = first_seen xs"
  by (simp add: Counter_def keys_foldl_counter_add)

lemma set_first_seen: "set (first_seen xs) = set xs"
  by (induction xs) auto

lemma distinct_first_seen: "distinct (first_seen xs)"
  by (induction xs) (auto simp: set_first_seen)

lemma first_pos_Cons:
  "first_pos y (x # xs) = (if y = x then 0 else Suc (first_pos y xs))"
  by (simp add: first_pos_def)

lemma first_seen_order:
  "sorted_wrt (\<lambda>a b. first_pos a xs < first_pos b xs) (first_seen xs)"
proof (induction xs)
  case Nil
  then show ?case by simp
next
  case (Cons x xs)
  have "sorted_wrt (\<lambda>a b. first_pos a xs < first_pos b xs) (filter (\<lambda>y. y \<noteq> x) (first_seen xs))"
    using Cons.IH by (rule sorted_wrt_filter)
  then have "sorted_wrt (\<lambda>a b. first_pos a (x # xs) < first_pos b (x # xs))
               (filter (\<lambda>y. y \<noteq> x) (first_seen xs))"
    by (rule sorted_wrt_mono_rel[rotated]) (auto simp: first_pos_Cons)
  then show ?case by (auto simp: first_pos_Cons)
qed

lemma cnt_counter_add: "cnt (counter_add x c) k = cnt c k + (if k = x then 1 else 0)"
  by (induction c) (auto simp: cnt_def)

lemma cnt_foldl_counter_add:
  "cnt (foldl (\<lambda>c x. counter_add x c) c xs) k = cnt c k + count_list xs k"
  by (induction xs arbitrary: c) (auto simp: cnt_counter_add)

lemma cnt_Counter: "cnt (Counter xs) k = count_list xs k"
  unfolding Counter_def cnt_foldl_counter_add by (simp add: cnt_def)

lemma cnt_distinct: "distinct (map fst c) \<Longrightarrow> (k, n) \<in> set c \<Longrightarrow> cnt c k = n"
proof (induction c)
  case Nil
  then show ?case by simp
next
  case (Cons a c)
  show ?case
  proof (cases "a = (k, n)")
    case True
    with Cons.prems have "filter (\<lambda>kv. fst kv = k) c = []"
      by (auto simp: filter_empty_conv)
    with True show ?thesis by (simp add: cnt_def)
  next
    case False
    with Cons.prems have in_c: "(k, n) \<in> set c" by simp
    then have "k \<in> fst ` set c" by force
    with Cons.prems have "fst a \<noteq> k" by auto
    with Cons in_c show ?thesis by (simp add: cnt_def)
  qed
qed

lemma Counter_entry:
  "(k, n) \<in> set (Counter xs) \<Longrightarrow> n = count_list xs k"
  using cnt_distinct[of "Counter xs" k n] by (simp add: keys_Counter distinct_first_seen cnt_Counter)

lemma Counter_has_key:
  "k \<in> set xs \<Longrightarrow> (k, count_list xs k) \<in> set (Counter xs)"
proof -
  assume "k \<in> set xs"
  then have "k \<in> set (map fst (Counter xs))" by (simp add: keys_Counter set_first_seen)
  then obtain n where "(k, n) \<in> set (Counter xs)" by auto
  then show ?thesis using Counter_entry[of k n xs] by simp
qed

subsection \<open>The descending stable sort\<close>

lemma set_most_common: "set (most_common c) = set c"
  by (simp add: most_common_def)

lemma distinct_keys_most_common:
  "distinct (map fst (most_common c)) = distinct (map fst c)"
  by (simp add: most_common_def distinct_map)

lemma sorted_wrt_filter_iff:
  "sorted_wrt R (filter P xs) \<longleftrightarrow> sorted_wrt (\<lambda>x y. P x \<and> P y \<longrightarrow> R x y) xs"
  by (induction xs) auto

lemma sorted_wrt_all:
  "(\<And>k. sorted_wrt (Q k) xs) \<Longrightarrow> sorted_wrt (\<lambda>x y. \<forall>k. Q k x y) xs"
  by (induction xs) auto

lemma sort_key_keeps_order:
  assumes "sorted_wrt R xs"
  shows "sorted_wrt (\<lambda>x y. f x = f y \<longrightarrow> R x y) (sort_key f xs)"
proof -
  have "sorted_wrt R (filter (\<lambda>y. f y = k) (sort_key f xs))" for k
    using assms by (simp add: sort_key_stable sorted_wrt_filter)
  then have "sorted_wrt (\<lambda>x y. f x = k \<and> f y = k \<longrightarrow> R x y) (sort_key f xs)" for k
    by (simp add: sorted_wrt_filter_iff)
  then have "sorted_wrt (\<lambda>x y. \<forall>k. f x = k \<and> f y = k \<longrightarrow> R x y) (sort_key f xs)"
    by (rule sorted_wrt_all)
  then show ?thesis
    by (rule sorted_wrt_mono_rel[rotated]) auto
qed

lemma most_common_keeps_order:
  assumes "sorted_wrt R c"
  shows "sorted_wrt (\<lambda>x y. snd x = snd y \<longrightarrow> R x y) (most_common c)"
proof -
  from assms have "sorted_wrt (\<lambda>x y. R y x) (rev c)"
    by (simp add: sorted_wrt_rev)
  then have "sorted_wrt (\<lambda>x y. snd x = snd y \<longrightarrow> R y x) (sort_key snd (rev c))"
    by (rule sort_key_keeps_order)
  then have "sorted_wrt (\<lambda>x y. snd y = snd x \<longrightarrow> R x y) (most_common c)"
    by (simp add: most_common_def sorted_wrt_rev)
  then show ?thesis
    by (rule sorted_wrt_mono_rel[rotated]) auto
qed

lemma most_common_descending:
  "sorted_wrt (\<lambda>x y. snd y \<le> snd x) (most_common c)"
proof -
  have "sorted (map snd (sort_key snd (rev c)))" by simp
  then have "sorted_wrt (\<lambda>x y. snd x \<le> snd y) (sort_key snd (rev c))"
    by (simp add: sorted_wrt_map)
  then show ?thesis by (simp add: most_common_def sorted_wrt_rev)
qed

subsection \<open>The filter\<close>

lemma boolean_index_mask:
  "df \<noteq> [] \<Longrightarrow> boolean_index df (map P df) = Some (filter P df)"
proof -
  have "map fst (filter snd (zip df (map P df))) = filter P df"
    by (induction df) auto
  then show "df \<noteq> [] \<Longrightarrow> boolean_index df (map P df) = Some (filter P df)"
    by (simp add: boolean_index_def)
qed

lemma boolean_index_empty: "boolean_index [] [] = None"
  by (simp add: boolean_index_def)

lemma filter_rows_unfold:
  "filter_rows df tf tv =
     (if tv = ''All'' then Some df
      else if df = [] then None
      else Some (filter (\<lambda>r. py_in tv (filter_field tf r)) df))"
  by (cases "df = []")
     (auto simp: filter_rows_def filter_field_def boolean_index_mask boolean_index_empty)

lemma filtered_glycans_unfold:
  "filtered_glycans df tf tv =
     (if tv = ''All'' then Inr (map glycan df)
      else if df = [] then Inl AttributeError
      else Inr (map glycan (filter (\<lambda>r. py_in tv (filter_field tf r)) df)))"
  by (simp add: filtered_glycans_def filter_rows_unfold)

lemma small_all: "filtered_glycans small_table ''Kingdom'' ''All'' =
      Inr [''Gal(b1-4)GlcNAc'', ''Man(b1-4)GlcNAc(b1-4)GlcNAc'', ''Gal(b1-4)[Fuc(a1-3)]GlcNAc'']"
  by code_simp

lemma small_k: "filtered_glycans small_table ''Kingdom'' ''nimal'' =
      Inr [''Gal(b1-4)GlcNAc'', ''Gal(b1-4)[Fuc(a1-3)]GlcNAc'']"
  by code_simp

lemma small_s:
  "filtered_glycans small_table ''Species'' ''an'' = Inr [''Gal(b1-4)[Fuc(a1-3)]GlcNAc'']"
  by code_simp

lemma small_n: "filtered_glycans small_table ''Kingdom'' ''animalia'' = Inr []"
  by code_simp

subsection \<open>The result of the characterizer\<close>

lemma characterize_context_unfold:
  "link_pool lf df tf tv = Inr flat \<Longrightarrow>
   characterize_context lf df g mode tf tv =
     (case select_mode mode g flat of
        Inl e \<Rightarrow> Inl e
      | Inr (sel, lab) \<Rightarrow>
          (case lab of
             None \<Rightarrow> Inl UnboundLocalError
           | Some l \<Rightarrow> Inr (l @ filter_suffix tf tv, above_threshold sel)))"
  by (simp add: characterize_context_def above_threshold_def filter_suffix_def Let_def
           split: sum.splits option.splits prod.splits)

lemma characterize_context_raises:
  "link_pool lf df tf tv = Inl e \<Longrightarrow> characterize_context lf df g mode tf tv = Inl e"
  by (simp add: characterize_context_def)

lemma link_pool_raises:
  "filtered_glycans df tf tv = Inl e \<Longrightarrow> link_pool lf df tf tv = Inl e"
  by (simp add: link_pool_def)

lemma link_pool_returns:
  "filtered_glycans df tf tv = Inr gs \<Longrightarrow> link_pool lf df tf tv = Inr (concat (map lf gs))"
  by (simp add: link_pool_def)

lemma characterize_context_Inr:
  assumes "characterize_context lf df g mode tf tv = Inr (lab, ks, vs)"
    and "link_pool lf df tf tv = Inr flat"
    and "select_mode mode g flat = Inr (sel, l)"
  shows "(ks, vs) = above_threshold sel"
  using assms(1,3) by (simp add: characterize_context_unfold[OF assms(2)] split: option.splits)

lemma above_threshold_fst:
  "fst (above_threshold sel) = map fst (filter (\<lambda>k. 10 < snd k) (most_common (Counter sel)))"
  by (simp add: above_threshold_def Let_def)

lemma above_threshold_snd:
  "snd (above_threshold sel) = map snd (filter (\<lambda>k. 10 < snd k) (most_common (Counter sel)))"
  by (simp add: above_threshold_def Let_def)

lemma kept_entry:
  "(k, n) \<in> set (filter (\<lambda>k. 10 < snd k) (most_common (Counter sel))) \<longleftrightarrow>
     k \<in> set sel \<and> n = count_list sel k \<and> 10 < n"
proof -
  have "(k, n) \<in> set (Counter sel) \<longleftrightarrow> k \<in> set sel \<and> n = count_list sel k"
  proof
    assume h: "(k, n) \<in> set (Counter sel)"
    then have "k \<in> set (map fst (Counter sel))" by force
    then have "k \<in> set sel" by (simp add: keys_Counter set_first_seen)
    with h show "k \<in> set sel \<and> n = count_list sel k" by (simp add: Counter_entry)
  next
    assume "k \<in> set sel \<and> n = count_list sel k"
    then show "(k, n) \<in> set (Counter sel)" by (simp add: Counter_has_key)
  qed
  then show ?thesis by (auto simp: set_most_common)
qed

lemma kept_entryD:
  "(k, n) \<in> set (filter (\<lambda>k. 10 < snd k) (most_common (Counter sel))) \<Longrightarrow>
     n = count_list sel k \<and> 10 < n"
  using kept_entry[of k n sel] by blast

lemma kept_entryI:
  "k \<in> set sel \<Longrightarrow> 10 < count_list sel k \<Longrightarrow>
     (k, count_list sel k) \<in> set (filter (\<lambda>k. 10 < snd k) (most_common (Counter sel)))"
  using kept_entry[of k "count_list sel k" sel] by blast

lemma kept_distinct:
  "distinct (map fst (filter (\<lambda>k. 10 < snd k) (most_common (Counter sel))))"
proof -
  have "distinct (map fst (most_common (Counter sel)))"
    by (simp add: distinct_keys_most_common keys_Counter distinct_first_seen)
  then show ?thesis by (rule distinct_map_filter)
qed

lemma kept_descending:
  "sorted_wrt (\<lambda>x y. snd y \<le> snd x) (filter (\<lambda>k. 10 < snd k) (most_common (Counter sel)))"
  by (rule sorted_wrt_filter) (rule most_common_descending)

lemma kept_tie_order:
  "sorted_wrt (\<lambda>x y. snd x = snd y \<longrightarrow> first_pos (fst x) sel < first_pos (fst y) sel)
     (filter (\<lambda>k. 10 < snd k) (most_common (Counter sel)))"
proof -
  have "sorted_wrt (\<lambda>a b. first_pos a sel < first_pos b sel) (map fst (Counter sel))"
    by (simp only: keys_Counter first_seen_order)
  then have "sorted_wrt (\<lambda>x y. first_pos (fst x) sel < first_pos (fst y) sel) (Counter sel)"
    by (simp add: sorted_wrt_map)
  then have "sorted_wrt (\<lambda>x y. snd x = snd y \<longrightarrow> first_pos (fst x) sel < first_pos (fst y) sel)
               (most_common (Counter sel))"
    by (rule most_common_keeps_order)
  then show ?thesis by (rule sorted_wrt_filter)
qed

subsection \<open>A glycoletter that does not occur\<close>

lemma py_in_Nil: "py_in [] s"
  by (induction s) auto

lemma literal_examples:
  "literal_pattern ''Fuc'' \<and> literal_pattern '']'' \<and> literal_pattern ''GlcNAc'' \<and>
   literal_pattern ''Xyl'' \<and> literal_pattern ''Gal'' \<and>
   \<not> literal_pattern ''b1-?'' \<and> \<not> literal_pattern ''*''"
  by code_simp

lemma plain_scan_absent: "\<not> py_in p s \<Longrightarrow> plain_scan p pos skip s = []"
proof (induction s arbitrary: pos skip)
  case Nil
  then show ?case by (auto simp: py_in_Nil)
next
  case (Cons c cs)
  then show ?case by auto
qed

lemma scan_starts_Nil: "scan_starts s [] init ms = ms"
  by (cases ms) simp

lemma scan_glycans_Nil:
  "\<forall>s \<in> set gs. finditer g s = Inr [] \<Longrightarrow> scan_glycans finditer g gs ms = Inr ms"
  by (induction gs) (simp_all add: scan_starts_Nil)

lemma pick_absent:
  "\<forall>k \<in> set pool. is_triple k \<and> g \<notin> set (py_split CHR ''*'' k) \<Longrightarrow>
   key < 3 \<Longrightarrow> pick out key g pool = Inr []"
proof (induction pool)
  case Nil
  then show ?case by simp
next
  case (Cons k pool)
  then have len: "key < length (py_split CHR ''*'' k)" by (simp add: is_triple_def)
  then have "py_split CHR ''*'' k ! key \<in> set (py_split CHR ''*'' k)" by (rule nth_mem)
  with Cons.prems have "py_split CHR ''*'' k ! key \<noteq> g" by auto
  with len Cons show ?case by (simp add: py_index_def)
qed

lemma above_threshold_Nil: "above_threshold [] = ([], [])"
  by (simp add: above_threshold_def Counter_def most_common_def)

lemma recognized_absent:
  assumes "mode = ''bond'' \<or> mode = ''sugar'' \<or> mode = ''sugarbond''"
    and "link_pool lf df tf tv = Inr flat"
    and "\<forall>k \<in> set flat. is_triple k \<and> g \<notin> set (py_split CHR ''*'' k)"
  shows "\<exists>lab. characterize_context lf df g mode tf tv = Inr (lab, [], [])"
proof -
  have "pick out key g flat = Inr []" if "key < 3" for out key
    using assms(3) that by (rule pick_absent)
  then have "pick 0 1 g flat = Inr []"
    and "pick 2 0 g flat = Inr []"
    and "pick 1 0 g flat = Inr []"
    by simp_all
  with assms(1) show ?thesis
    by (auto simp: characterize_context_unfold[OF assms(2)] select_mode_def above_threshold_Nil)
qed

lemma fields_occur_absent:
  assumes "\<forall>s \<in> set gs. fields_occur lf s \<and> \<not> py_in g s"
  shows "\<forall>k \<in> set (concat (map lf gs)). is_triple k \<and> g \<notin> set (py_split CHR ''*'' k)"
proof
  fix k assume "k \<in> set (concat (map lf gs))"
  then obtain s where s: "s \<in> set gs" and k: "k \<in> set (lf s)"
    by auto
  with assms have occ: "fields_occur lf s" and absent: "\<not> py_in g s" by auto
  from occ k have "is_triple k" and "\<forall>f \<in> set (py_split CHR ''*'' k). py_in f s"
    by (auto simp: fields_occur_def list_all_iff)
  with absent show "is_triple k \<and> g \<notin> set (py_split CHR ''*'' k)" by auto
qed

subsection \<open>The modes\<close>

lemma pool_of_triples:
  assumes "\<forall>t \<in> set ts. star_free t"
  shows "select_mode ''bond'' g (map token ts) =
           Inr (map fst (filter (\<lambda>t. fst (snd t) = g) ts),
                Some (''Observed monosaccharides making bond '' @ g))"
    and "select_mode ''sugar'' g (map token ts) =
           Inr (map (\<lambda>t. snd (snd t)) (filter (\<lambda>t. fst t = g) ts),
                Some (''Observed monosaccharides paired with '' @ g))"
    and "select_mode ''sugarbond'' g (map token ts) =
           Inr (map (\<lambda>t. fst (snd t)) (filter (\<lambda>t. fst t = g) ts),
                Some (''Observed bonds made by '' @ g))"
  using assms
  by (simp_all add: select_mode_def pick_bond pick_sugar pick_sugarbond)

lemma unrecognized_mode:
  "mode \<noteq> ''bond'' \<Longrightarrow> mode \<noteq> ''sugar'' \<Longrightarrow> mode \<noteq> ''sugarbond'' \<Longrightarrow>
   link_pool lf df tf tv = Inr flat \<Longrightarrow>
   characterize_context lf df g mode tf tv = Inl UnboundLocalError"
  by (simp add: characterize_context_unfold select_mode_def)

subsection \<open>A filter that keeps every row\<close>

lemma filtered_glycans_all:
  "df \<noteq> [] \<Longrightarrow> \<forall>r \<in> set df. py_in tv (filter_field tf r) \<Longrightarrow>
   filtered_glycans df tf tv = Inr (map glycan df)"
  by (simp add: filtered_glycans_unfold)

lemma filtered_glycans_All: "filtered_glycans df tf ''All'' = Inr (map glycan df)"
  by (simp add: filtered_glycans_unfold)

subsection \<open>The example table\<close>

lemma big_pool:
  "link_pool demo_link_find big_table ''Kingdom'' ''All'' = Inr (map token big_triples)"
  by code_simp

lemma big_star_free: "\<forall>t \<in> set big_triples. star_free t"
proof -
  have "list_all star_free big_triples" by code_simp
  then show ?thesis by (simp only: list_all_iff)
qed

lemma big_bond:
  "characterize_context demo_link_find big_table ''b1-4'' ''bond'' ''Kingdom'' ''All'' =
     Inr (''Observed monosaccharides making bond b1-4 (Kingdom = All)'',
          [''Gal'', ''Man'', ''GlcNAc''], [12, 11, 11])"
  by code_simp

lemma big_select:
  "select_mode ''bond'' ''b1-4'' (map token big_triples) =
     Inr (big_selected, Some ''Observed monosaccharides making bond b1-4'')"
  by code_simp

section \<open>The claims\<close>

subsection \<open>The Main/Side Counter\<close>

text \<open>
  Claim C1. When the filter returns the glycans \<open>gs\<close> and the matcher gives the
  occurrence starts \<open>occ s\<close> for every glycan \<open>s\<close> of them, the counter returns as
  \<open>side\<close> the number of occurrences whose window holds \<open>[\<close> and no \<open>]\<close>, and as
  \<open>main\<close> the number of all other occurrences, both summed over the filtered set. The
  window of an occurrence (\<open>window\<close>, read by \<open>is_side\<close>, \<open>side_count\<close> and
  \<open>main_count\<close>) runs from the start of the previous occurrence, or from the start of
  the string for the first occurrence, up to the start of the occurrence itself: the
  cursor moves to the start of each occurrence, not to its end, so the text an occurrence
  matched lies in the window of the next one.
\<close>

theorem main_side_classification:
  assumes "filtered_glycans df tf tv = Inr gs"
    and "\<forall>s \<in> set gs. finditer g s = Inr (occ s)"
  shows "main_v_side_branch finditer df g tf tv =
           Inr (sum_list (map (\<lambda>s. main_count s (occ s)) gs),
                sum_list (map (\<lambda>s. side_count s (occ s)) gs))"
  using assms scan_glycans_counts[of gs finditer g occ 0 0]
  by (simp add: main_v_side_branch_def)

text \<open>
  Two runs with the literal matcher. In the three glycans of \<open>small_table\<close> the
  glycoletter \<open>Fuc\<close> occurs once, after an open bracket. In the glycan of \<open>row_e\<close> the
  glycoletter \<open>]\<close> occurs twice; the window of its second occurrence starts with the
  first occurrence itself, so it holds \<open>]\<close> and the occurrence counts as main chain.
\<close>

theorem main_side_classification_witness:
  "filtered_glycans small_table ''Kingdom'' ''All'' = Inr (map glycan small_table) \<and>
   list_all (\<lambda>s. plain_finditer ''Fuc'' s = Inr (plain_scan ''Fuc'' 0 0 s))
     (map glycan small_table) \<and>
   main_v_side_branch plain_finditer small_table ''Fuc'' ''Kingdom'' ''All'' =
     Inr (sum_list (map (\<lambda>s. main_count s (plain_scan ''Fuc'' 0 0 s))
                     (map glycan small_table)),
          sum_list (map (\<lambda>s. side_count s (plain_scan ''Fuc'' 0 0 s))
                     (map glycan small_table))) \<and>
   main_v_side_branch plain_finditer small_table ''Fuc'' ''Kingdom'' ''All'' = Inr (0, 1) \<and>
   plain_scan '']'' 0 0 (glycan row_e) = [19, 42] \<and>
   window (glycan row_e) [19, 42] 0 = ''Gal(b1-4)[Fuc(a1-3)'' \<and>
   window (glycan row_e) [19, 42] 1 = '']GlcNAc(b1-4)[Fuc(a1-6)'' \<and>
   main_count (glycan row_e) [19, 42] = 1 \<and>
   side_count (glycan row_e) [19, 42] = 1 \<and>
   main_v_side_branch plain_finditer [row_e] '']'' ''Kingdom'' ''All'' = Inr (1, 1)"
proof -
  have f: "filtered_glycans small_table ''Kingdom'' ''All'' = Inr (map glycan small_table)"
    by (rule filtered_glycans_All)
  have h: "\<forall>s \<in> set (map glycan small_table).
             plain_finditer ''Fuc'' s = Inr (plain_scan ''Fuc'' 0 0 s)"
    by (simp add: plain_finditer_def)
  have v: "main_v_side_branch plain_finditer small_table ''Fuc'' ''Kingdom'' ''All'' = Inr (0, 1)"
    by code_simp
  from h have l: "list_all (\<lambda>s. plain_finditer ''Fuc'' s = Inr (plain_scan ''Fuc'' 0 0 s))
     (map glycan small_table)"
    by (simp only: list_all_iff)
  note t = main_side_classification[where finditer=plain_finditer and g="''Fuc''"
        and occ="plain_scan ''Fuc'' 0 0", OF f h]
  have e: "filtered_glycans [row_e] ''Kingdom'' ''All'' = Inr [glycan row_e]"
    by (simp add: filtered_glycans_All)
  have s: "plain_scan '']'' 0 0 (glycan row_e) = [19, 42]" by code_simp
  have h2: "\<forall>s \<in> set [glycan row_e].
              plain_finditer '']'' s = Inr (plain_scan '']'' 0 0 s)"
    by (simp add: plain_finditer_def)
  have w0: "window (glycan row_e) [19, 42] 0 = ''Gal(b1-4)[Fuc(a1-3)''" by code_simp
  have w1: "window (glycan row_e) [19, 42] 1 = '']GlcNAc(b1-4)[Fuc(a1-6)''" by code_simp
  have m: "main_count (glycan row_e) [19, 42] = 1" by code_simp
  have d: "side_count (glycan row_e) [19, 42] = 1" by code_simp
  from main_side_classification[where finditer=plain_finditer and g="'']''"
        and occ="plain_scan '']'' 0 0", OF e h2]
  have r: "main_v_side_branch plain_finditer [row_e] '']'' ''Kingdom'' ''All'' = Inr (1, 1)"
    by (simp add: s m d)
  from f l t v s w0 w1 m d r show ?thesis by (intro conjI)
qed

text \<open>
  Claim C2. When the filter returns the glycans \<open>gs\<close> and the matcher gives the
  occurrence starts \<open>occ s\<close> for every glycan \<open>s\<close> of them, the counter returns a pair
  whose sum \<open>main + side\<close> is the number of all matches over the filtered set, and when
  no glycan has a match the pair is \<open>(0, 0)\<close>.
\<close>

theorem main_plus_side_is_match_total:
  assumes "filtered_glycans df tf tv = Inr gs"
    and "\<forall>s \<in> set gs. finditer g s = Inr (occ s)"
  shows "\<exists>main side.
           main_v_side_branch finditer df g tf tv = Inr (main, side) \<and>
           main + side = sum_list (map (\<lambda>s. length (occ s)) gs) \<and>
           ((\<forall>s \<in> set gs. occ s = []) \<longrightarrow> main = 0 \<and> side = 0)"
proof -
  let ?m = "sum_list (map (\<lambda>s. main_count s (occ s)) gs)"
  let ?s = "sum_list (map (\<lambda>s. side_count s (occ s)) gs)"
  have run: "main_v_side_branch finditer df g tf tv = Inr (?m, ?s)"
    using assms scan_glycans_counts[of gs finditer g occ 0 0]
    by (simp add: main_v_side_branch_def)
  have "?m + ?s = sum_list (map (\<lambda>s. main_count s (occ s) + side_count s (occ s)) gs)"
    by (simp add: sum_list_addf)
  then have total: "?m + ?s = sum_list (map (\<lambda>s. length (occ s)) gs)"
    by (simp add: main_plus_side_length)
  have "?m = 0 \<and> ?s = 0" if "\<forall>s \<in> set gs. occ s = []"
    using that by (simp add: main_count_def side_count_def)
  with run total show ?thesis by blast
qed

text \<open>
  \<open>GlcNAc\<close> has four matches in \<open>small_table\<close>, all on the main chain; \<open>Xyl\<close> has
  none.
\<close>

theorem main_plus_side_is_match_total_witness:
  "filtered_glycans small_table ''Kingdom'' ''All'' = Inr (map glycan small_table) \<and>
   main_v_side_branch plain_finditer small_table ''GlcNAc'' ''Kingdom'' ''All'' = Inr (4, 0) \<and>
   sum_list (map (\<lambda>s. length (plain_scan ''GlcNAc'' 0 0 s)) (map glycan small_table)) = 4 + 0 \<and>
   list_all (\<lambda>s. plain_scan ''Xyl'' 0 0 s = []) (map glycan small_table) \<and>
   main_v_side_branch plain_finditer small_table ''Xyl'' ''Kingdom'' ''All'' = Inr (0, 0)"
proof -
  let ?gs = "map glycan small_table"
  have f: "filtered_glycans small_table ''Kingdom'' ''All'' = Inr ?gs"
    by (rule filtered_glycans_All)
  have h: "\<forall>s \<in> set ?gs. plain_finditer p s = Inr (plain_scan p 0 0 s)" for p
    by (simp add: plain_finditer_def)
  have v: "main_v_side_branch plain_finditer small_table ''GlcNAc'' ''Kingdom'' ''All'' = Inr (4, 0)"
    by code_simp
  have nl: "list_all (\<lambda>s. plain_scan ''Xyl'' 0 0 s = []) ?gs" by code_simp
  then have none: "\<forall>s \<in> set ?gs. plain_scan ''Xyl'' 0 0 s = []"
    by (simp only: list_all_iff)
  from main_plus_side_is_match_total[where finditer=plain_finditer and g="''GlcNAc''"
        and occ="plain_scan ''GlcNAc'' 0 0", OF f h]
  obtain m s where "main_v_side_branch plain_finditer small_table ''GlcNAc'' ''Kingdom'' ''All'' = Inr (m, s)"
    and "m + s = sum_list (map (\<lambda>s. length (plain_scan ''GlcNAc'' 0 0 s)) ?gs)"
    by blast
  with v have total: "sum_list (map (\<lambda>s. length (plain_scan ''GlcNAc'' 0 0 s)) ?gs) = 4 + 0"
    by simp
  from main_plus_side_is_match_total[where finditer=plain_finditer and g="''Xyl''"
        and occ="plain_scan ''Xyl'' 0 0", OF f h] none
  have zero: "main_v_side_branch plain_finditer small_table ''Xyl'' ''Kingdom'' ''All'' = Inr (0, 0)"
    by auto
  from f v total nl zero show ?thesis by (intro conjI)
qed

subsection \<open>The Taxonomic Filter\<close>


text \<open>
  On a table that has rows the filter does what the claim says: the glycans, in table
  order, of exactly the rows whose \<open>kingdom\<close> (for \<open>taxonomy_filter = "Kingdom"\<close>) or
  \<open>species\<close> (for any other \<open>taxonomy_filter\<close>), turned into a string by \<open>str\<close>, has
  \<open>taxonomy_value\<close> as a contiguous substring, and the empty list when there is none.
\<close>

lemma taxonomic_filter_selects:
  assumes "df \<noteq> [] \<or> tv = ''All''"
  shows "(tv = ''All'' \<longrightarrow> filtered_glycans df tf tv = Inr (map glycan df)) \<and>
   (tv \<noteq> ''All'' \<and> tf = ''Kingdom'' \<longrightarrow>
      filtered_glycans df tf tv =
        Inr (map glycan (filter (\<lambda>r. \<exists>a b. py_str (kingdom r) = a @ tv @ b) df))) \<and>
   (tv \<noteq> ''All'' \<and> tf \<noteq> ''Kingdom'' \<longrightarrow>
      filtered_glycans df tf tv =
        Inr (map glycan (filter (\<lambda>r. \<exists>a b. py_str (species r) = a @ tv @ b) df))) \<and>
   (tv \<noteq> ''All'' \<and> (\<forall>r \<in> set df. \<not> (\<exists>a b. filter_field tf r = a @ tv @ b))
      \<longrightarrow> filtered_glycans df tf tv = Inr [])"
  using assms
  by (auto simp: filtered_glycans_unfold filter_empty_conv filter_field_def py_in_iff)

text \<open>
  Claim C9, as amended. On a table that has rows, when \<open>taxonomy_value\<close> occurs in the
  filtered field of every row, the counter returns what it returns for \<open>"All"\<close>, and the
  characterizer returns the same error or the same partner and count lists as for
  \<open>"All"\<close>; its label is the same up to the final
  \<open> (taxonomy_filter = taxonomy_value)\<close>, which names the filter of the call.
\<close>

theorem all_is_identity_up_to_label:
  assumes "df \<noteq> []" and "\<forall>r \<in> set df. py_in tv (filter_field tf r)"
  shows "main_v_side_branch finditer df g tf tv = main_v_side_branch finditer df g tf' ''All'' \<and>
         (\<forall>e. characterize_context lf df g mode tf tv = Inl e \<longleftrightarrow>
              characterize_context lf df g mode tf' ''All'' = Inl e) \<and>
         (\<forall>lab ks vs. characterize_context lf df g mode tf tv = Inr (lab, ks, vs) \<longrightarrow>
            (\<exists>base. lab = base @ filter_suffix tf tv \<and>
                    characterize_context lf df g mode tf' ''All'' =
                      Inr (base @ filter_suffix tf' ''All'', ks, vs)))"
proof -
  let ?flat = "concat (map lf (map glycan df))"
  have gl: "filtered_glycans df tf tv = Inr (map glycan df)"
    using assms by (rule filtered_glycans_all)
  have gA: "filtered_glycans df tf' ''All'' = Inr (map glycan df)"
    by (rule filtered_glycans_All)
  have p: "link_pool lf df tf tv = Inr ?flat" using gl by (rule link_pool_returns)
  have pA: "link_pool lf df tf' ''All'' = Inr ?flat" using gA by (rule link_pool_returns)
  have counter: "main_v_side_branch finditer df g tf tv =
                 main_v_side_branch finditer df g tf' ''All''"
    by (simp add: main_v_side_branch_def gl gA)
  show ?thesis
    using counter
    by (auto simp: characterize_context_unfold[OF p] characterize_context_unfold[OF pA]
             split: sum.splits option.splits prod.splits)
qed

text \<open>
  Every kingdom of \<open>big_table\<close> holds the letter \<open>a\<close>.
\<close>

theorem all_is_identity_up_to_label_witness:
  "big_table \<noteq> [] \<and>
   list_all (\<lambda>r. py_in ''a'' (filter_field ''Kingdom'' r)) big_table \<and>
   main_v_side_branch plain_finditer big_table ''Fuc'' ''Kingdom'' ''a'' =
     main_v_side_branch plain_finditer big_table ''Fuc'' ''Species'' ''All'' \<and>
   main_v_side_branch plain_finditer big_table ''Fuc'' ''Kingdom'' ''a'' = Inr (0, 1) \<and>
   characterize_context demo_link_find big_table ''b1-4'' ''bond'' ''Kingdom'' ''a'' =
     Inr (''Observed monosaccharides making bond b1-4'' @ filter_suffix ''Kingdom'' ''a'',
          [''Gal'', ''Man'', ''GlcNAc''], [12, 11, 11]) \<and>
   characterize_context demo_link_find big_table ''b1-4'' ''bond'' ''Species'' ''All'' =
     Inr (''Observed monosaccharides making bond b1-4'' @ filter_suffix ''Species'' ''All'',
          [''Gal'', ''Man'', ''GlcNAc''], [12, 11, 11])"
proof -
  have ne: "big_table \<noteq> []" by code_simp
  have m: "list_all (\<lambda>r. py_in ''a'' (filter_field ''Kingdom'' r)) big_table" by code_simp
  then have h: "\<forall>r \<in> set big_table. py_in ''a'' (filter_field ''Kingdom'' r)"
    by (simp only: list_all_iff)
  note t = all_is_identity_up_to_label[OF ne h, where finditer=plain_finditer and g="''Fuc''"
      and tf'="''Species''"]
  note u = all_is_identity_up_to_label[OF ne h, where lf=demo_link_find and g="''b1-4''"
      and mode="''bond''" and tf'="''Species''" and finditer=plain_finditer]
  from t have eq: "main_v_side_branch plain_finditer big_table ''Fuc'' ''Kingdom'' ''a'' =
     main_v_side_branch plain_finditer big_table ''Fuc'' ''Species'' ''All''"
    by (rule conjunct1)
  have v: "main_v_side_branch plain_finditer big_table ''Fuc'' ''Kingdom'' ''a'' = Inr (0, 1)"
    by code_simp
  have c: "characterize_context demo_link_find big_table ''b1-4'' ''bond'' ''Kingdom'' ''a'' =
     Inr (''Observed monosaccharides making bond b1-4'' @ filter_suffix ''Kingdom'' ''a'',
          [''Gal'', ''Man'', ''GlcNAc''], [12, 11, 11])"
    by code_simp
  from u[THEN conjunct2, THEN conjunct2, rule_format, OF c] obtain base where
    b: "''Observed monosaccharides making bond b1-4'' @ filter_suffix ''Kingdom'' ''a'' =
          base @ filter_suffix ''Kingdom'' ''a''"
    and r: "characterize_context demo_link_find big_table ''b1-4'' ''bond'' ''Species'' ''All'' =
          Inr (base @ filter_suffix ''Species'' ''All'', [''Gal'', ''Man'', ''GlcNAc''], [12, 11, 11])"
    by (elim exE conjE)
  from b have "''Observed monosaccharides making bond b1-4'' = base"
    by (simp only: append_same_eq)
  with r have d: "characterize_context demo_link_find big_table ''b1-4'' ''bond'' ''Species'' ''All'' =
     Inr (''Observed monosaccharides making bond b1-4'' @ filter_suffix ''Species'' ''All'',
          [''Gal'', ''Man'', ''GlcNAc''], [12, 11, 11])"
    by (simp only:)
  from ne m eq v c d show ?thesis by (intro conjI)
qed

text \<open>
  Claim C9 as stated fails: the value \<open>a\<close> occurs in the kingdom of every row of the
  table below, and the characterizer's output for it differs from the output for
  \<open>"All"\<close>, in the label.
\<close>

theorem all_changes_the_label:
  "py_in ''a'' (filter_field ''Kingdom'' row_a) \<and>
   py_in ''a'' (filter_field ''Kingdom'' row_b) \<and>
   py_in ''a'' (filter_field ''Kingdom'' row_c) \<and>
   characterize_context demo_link_find [row_a, row_b, row_c] ''b1-4'' ''bond'' ''Kingdom'' ''a'' \<noteq>
   characterize_context demo_link_find [row_a, row_b, row_c] ''b1-4'' ''bond'' ''Kingdom'' ''All''"
  by code_simp

subsection \<open>The Context Characterizer\<close>

text \<open>
  Claim C4. On a pool of bond triples \<open>a*b*c\<close> whose fields hold no \<open>*\<close>, mode
  \<open>bond\<close> keeps the triples with \<open>b = glycoletter\<close> and tallies \<open>a\<close>, mode \<open>sugar\<close>
  keeps those with \<open>a = glycoletter\<close> and tallies \<open>c\<close>, mode \<open>sugarbond\<close> keeps those
  with \<open>a = glycoletter\<close> and tallies \<open>b\<close>; the comparison is equality of strings.
  The label is the mode's own text followed by the glycoletter and by
  \<open> (taxonomy_filter = taxonomy_value)\<close>.
\<close>

theorem mode_selects_key_and_partner:
  assumes "link_pool lf df tf tv = Inr (map token ts)" and "\<forall>t \<in> set ts. star_free t"
  shows "characterize_context lf df g ''bond'' tf tv =
           Inr (''Observed monosaccharides making bond '' @ g
                  @ '' ('' @ tf @ '' = '' @ tv @ '')'',
                above_threshold (map (\<lambda>(a, b, c). a) (filter (\<lambda>(a, b, c). b = g) ts))) \<and>
         characterize_context lf df g ''sugar'' tf tv =
           Inr (''Observed monosaccharides paired with '' @ g
                  @ '' ('' @ tf @ '' = '' @ tv @ '')'',
                above_threshold (map (\<lambda>(a, b, c). c) (filter (\<lambda>(a, b, c). a = g) ts))) \<and>
         characterize_context lf df g ''sugarbond'' tf tv =
           Inr (''Observed bonds made by '' @ g
                  @ '' ('' @ tf @ '' = '' @ tv @ '')'',
                above_threshold (map (\<lambda>(a, b, c). b) (filter (\<lambda>(a, b, c). a = g) ts)))"
proof -
  have p: "(\<lambda>(a, b, c). a) = fst" "(\<lambda>(a, b, c). b) = (\<lambda>t. fst (snd t))"
    "(\<lambda>(a, b, c). c) = (\<lambda>t. snd (snd t))"
    "(\<lambda>(a, b, c). b = g) = (\<lambda>t. fst (snd t) = g)"
    "(\<lambda>(a, b, c). a = g) = (\<lambda>t. fst t = g)"
    by (auto simp: fun_eq_iff)
  show ?thesis
    unfolding p characterize_context_unfold[OF assms(1)] pool_of_triples[OF assms(2)]
    by (simp add: filter_suffix_def)
qed

text \<open>
  The three modes on \<open>big_table\<close>, whose pool is the tokens of \<open>big_triples\<close>.
\<close>

theorem mode_selects_key_and_partner_witness:
  "list_all star_free big_triples \<and>
   link_pool demo_link_find big_table ''Kingdom'' ''All'' = Inr (map token big_triples) \<and>
   characterize_context demo_link_find big_table ''b1-4'' ''bond'' ''Kingdom'' ''All'' =
     Inr (''Observed monosaccharides making bond b1-4 (Kingdom = All)'',
          above_threshold (map (\<lambda>(a, b, c). a) (filter (\<lambda>(a, b, c). b = ''b1-4'') big_triples))) \<and>
   above_threshold (map (\<lambda>(a, b, c). a) (filter (\<lambda>(a, b, c). b = ''b1-4'') big_triples)) =
     ([''Gal'', ''Man'', ''GlcNAc''], [12, 11, 11]) \<and>
   characterize_context demo_link_find big_table ''Gal'' ''sugar'' ''Kingdom'' ''All'' =
     Inr (''Observed monosaccharides paired with Gal (Kingdom = All)'',
          above_threshold (map (\<lambda>(a, b, c). c) (filter (\<lambda>(a, b, c). a = ''Gal'') big_triples))) \<and>
   above_threshold (map (\<lambda>(a, b, c). c) (filter (\<lambda>(a, b, c). a = ''Gal'') big_triples)) =
     ([''GlcNAc''], [12]) \<and>
   characterize_context demo_link_find big_table ''Gal'' ''sugarbond'' ''Kingdom'' ''All'' =
     Inr (''Observed bonds made by Gal (Kingdom = All)'',
          above_threshold (map (\<lambda>(a, b, c). b) (filter (\<lambda>(a, b, c). a = ''Gal'') big_triples))) \<and>
   above_threshold (map (\<lambda>(a, b, c). b) (filter (\<lambda>(a, b, c). a = ''Gal'') big_triples)) =
     ([''b1-4''], [12])"
proof -
  have sf: "list_all star_free big_triples" by code_simp
  have t1: "above_threshold (map (\<lambda>(a, b, c). a) (filter (\<lambda>(a, b, c). b = ''b1-4'') big_triples)) =
     ([''Gal'', ''Man'', ''GlcNAc''], [12, 11, 11])" by code_simp
  have t2: "above_threshold (map (\<lambda>(a, b, c). c) (filter (\<lambda>(a, b, c). a = ''Gal'') big_triples)) =
     ([''GlcNAc''], [12])" by code_simp
  have t3: "above_threshold (map (\<lambda>(a, b, c). b) (filter (\<lambda>(a, b, c). a = ''Gal'') big_triples)) =
     ([''b1-4''], [12])" by code_simp
  note m1 = mode_selects_key_and_partner[OF big_pool big_star_free, where g="''b1-4''"]
  note m2 = mode_selects_key_and_partner[OF big_pool big_star_free, where g="''Gal''"]
  have b: "characterize_context demo_link_find big_table ''b1-4'' ''bond'' ''Kingdom'' ''All'' =
     Inr (''Observed monosaccharides making bond b1-4 (Kingdom = All)'',
          above_threshold (map (\<lambda>(a, b, c). a) (filter (\<lambda>(a, b, c). b = ''b1-4'') big_triples)))"
    using m1 by simp
  have s: "characterize_context demo_link_find big_table ''Gal'' ''sugar'' ''Kingdom'' ''All'' =
     Inr (''Observed monosaccharides paired with Gal (Kingdom = All)'',
          above_threshold (map (\<lambda>(a, b, c). c) (filter (\<lambda>(a, b, c). a = ''Gal'') big_triples)))"
    using m2 by simp
  have sb: "characterize_context demo_link_find big_table ''Gal'' ''sugarbond'' ''Kingdom'' ''All'' =
     Inr (''Observed bonds made by Gal (Kingdom = All)'',
          above_threshold (map (\<lambda>(a, b, c). b) (filter (\<lambda>(a, b, c). a = ''Gal'') big_triples)))"
    using m2 by simp
  from sf big_pool b t1 s t2 sb t3 show ?thesis by (intro conjI)
qed

text \<open>
  Claim C5. A mode outside \<open>bond\<close>, \<open>sugar\<close>, \<open>sugarbond\<close> is to be rejected at once
  with an invalid-argument error. The code has no branch for such a mode: it builds the
  pool, tallies all of it, and fails only at the last statement, where the label
  \<open>lab\<close> was never assigned, with \<open>UnboundLocalError\<close>. The call below is one such
  input.
\<close>

theorem unrecognized_mode_unbound_label:
  "characterize_context demo_link_find small_table ''Gal'' ''bonds'' ''Kingdom'' ''All'' =
     Inl UnboundLocalError"
  by code_simp

text \<open>
  Claim C6. Every partner the characterizer returns occurs more than 10 times in the
  pool selected for the mode, and every value of that pool it does not return occurs at
  most 10 times there.
\<close>

theorem threshold_exact:
  assumes "characterize_context lf df g mode tf tv = Inr (lab, ks, vs)"
    and "link_pool lf df tf tv = Inr flat"
    and "select_mode mode g flat = Inr (sel, l)"
  shows "(\<forall>k \<in> set ks. 10 < count_list sel k) \<and>
         (\<forall>k \<in> set sel. k \<notin> set ks \<longrightarrow> count_list sel k \<le> 10)"
proof -
  from characterize_context_Inr[OF assms]
  have ks: "ks = map fst (filter (\<lambda>k. 10 < snd k) (most_common (Counter sel)))"
    by (simp add: above_threshold_def Let_def)
  show ?thesis
  proof (intro conjI ballI impI)
    fix k assume "k \<in> set ks"
    then obtain n where "(k, n) \<in> set (filter (\<lambda>k. 10 < snd k) (most_common (Counter sel)))"
      unfolding ks by auto
    then show "10 < count_list sel k" using kept_entryD[of k n sel] by simp
  next
    fix k assume k: "k \<in> set sel" and out: "k \<notin> set ks"
    show "count_list sel k \<le> 10"
    proof (rule ccontr)
      assume "\<not> count_list sel k \<le> 10"
      with k have "(k, count_list sel k) \<in> set (filter (\<lambda>k. 10 < snd k) (most_common (Counter sel)))"
        by (intro kept_entryI) simp_all
      then have "k \<in> set ks" unfolding ks by force
      with out show False by simp
    qed
  qed
qed

text \<open>
  In \<open>big_table\<close> the bond \<open>b1-4\<close> is made 12 times by \<open>Gal\<close>, 11 times by \<open>Man\<close> and
  by \<open>GlcNAc\<close>, and once by \<open>Glc\<close>, which is left out.
\<close>

theorem threshold_exact_witness:
  "characterize_context demo_link_find big_table ''b1-4'' ''bond'' ''Kingdom'' ''All'' =
     Inr (''Observed monosaccharides making bond b1-4 (Kingdom = All)'',
          [''Gal'', ''Man'', ''GlcNAc''], [12, 11, 11]) \<and>
   10 < count_list big_selected ''Gal'' \<and>
   10 < count_list big_selected ''Man'' \<and>
   10 < count_list big_selected ''GlcNAc'' \<and>
   ''Glc'' \<in> set big_selected \<and> count_list big_selected ''Glc'' \<le> 10"
proof -
  note t = threshold_exact[OF big_bond big_pool big_select]
  have glc: "''Glc'' \<in> set big_selected" by (simp add: big_selected_def)
  from t have "10 < count_list big_selected ''Gal''" "10 < count_list big_selected ''Man''"
    "10 < count_list big_selected ''GlcNAc''" by simp_all
  moreover from t glc have "count_list big_selected ''Glc'' \<le> 10" by simp
  ultimately show ?thesis using big_bond glc by (intro conjI)
qed

text \<open>
  Claim C7. The counts are returned in non-increasing order, and of two partners with
  the same count the one that appears first in the selected pool comes first.
\<close>

theorem sorted_by_count_then_first_seen:
  assumes "characterize_context lf df g mode tf tv = Inr (lab, ks, vs)"
    and "link_pool lf df tf tv = Inr flat"
    and "select_mode mode g flat = Inr (sel, l)"
  shows "(\<forall>i j. i < j \<and> j < length vs \<longrightarrow> vs ! j \<le> vs ! i) \<and>
         (\<forall>i j. i < j \<and> j < length ks \<and> vs ! i = vs ! j \<longrightarrow>
                  first_pos (ks ! i) sel < first_pos (ks ! j) sel)"
proof -
  let ?R = "filter (\<lambda>k. 10 < snd k) (most_common (Counter sel))"
  from characterize_context_Inr[OF assms]
  have ks: "ks = map fst ?R" and vs: "vs = map snd ?R"
    by (simp_all add: above_threshold_def Let_def)
  have len: "length ks = length ?R" "length vs = length ?R" by (simp_all add: ks vs)
  show ?thesis
  proof (intro conjI allI impI)
    fix i j assume "i < j \<and> j < length vs"
    then have ij: "i < j" "j < length ?R" by (simp_all add: len)
    with kept_descending[of sel] have "snd (?R ! j) \<le> snd (?R ! i)"
      unfolding sorted_wrt_iff_nth_less by blast
    with ij show "vs ! j \<le> vs ! i" by (simp add: vs)
  next
    fix i j assume "i < j \<and> j < length ks \<and> vs ! i = vs ! j"
    then have ij: "i < j" "j < length ?R" and eq: "vs ! i = vs ! j" by (simp_all add: len)
    from ij kept_tie_order[of sel]
    have "snd (?R ! i) = snd (?R ! j) \<longrightarrow> first_pos (fst (?R ! i)) sel < first_pos (fst (?R ! j)) sel"
      unfolding sorted_wrt_iff_nth_less by blast
    moreover from eq ij have "snd (?R ! i) = snd (?R ! j)" by (simp add: vs)
    ultimately show "first_pos (ks ! i) sel < first_pos (ks ! j) sel"
      using ij by (simp add: ks)
  qed
qed

text \<open>
  \<open>Gal\<close> comes first although it appears last in the pool; \<open>Man\<close> and \<open>GlcNAc\<close>
  have the same count and keep the order in which the pool first shows them.
\<close>

theorem sorted_by_count_then_first_seen_witness:
  "characterize_context demo_link_find big_table ''b1-4'' ''bond'' ''Kingdom'' ''All'' =
     Inr (''Observed monosaccharides making bond b1-4 (Kingdom = All)'',
          [''Gal'', ''Man'', ''GlcNAc''], [12, 11, 11]) \<and>
   [12, 11, 11 :: nat] ! 1 \<le> [12, 11, 11] ! 0 \<and>
   [12, 11, 11 :: nat] ! 2 \<le> [12, 11, 11] ! 1 \<and>
   first_pos ''Man'' big_selected < first_pos ''GlcNAc'' big_selected \<and>
   first_pos ''Man'' big_selected = 0 \<and> first_pos ''GlcNAc'' big_selected = 1 \<and>
   first_pos ''Gal'' big_selected = 22"
proof -
  note t = sorted_by_count_then_first_seen[OF big_bond big_pool big_select]
  from t have a: "[12, 11, 11 :: nat] ! 1 \<le> [12, 11, 11] ! 0" by simp
  from t have b: "[12, 11, 11 :: nat] ! 2 \<le> [12, 11, 11] ! 1" by simp
  from t have "(1::nat) < 2 \<and> 2 < length [''Gal'', ''Man'', ''GlcNAc''] \<and>
      [12, 11, 11 :: nat] ! 1 = [12, 11, 11] ! 2 \<longrightarrow>
      first_pos ([''Gal'', ''Man'', ''GlcNAc''] ! 1) big_selected
        < first_pos ([''Gal'', ''Man'', ''GlcNAc''] ! 2) big_selected"
    by blast
  then have c: "first_pos ''Man'' big_selected < first_pos ''GlcNAc'' big_selected" by simp
  have d: "first_pos ''Man'' big_selected = 0" "first_pos ''GlcNAc'' big_selected = 1"
    "first_pos ''Gal'' big_selected = 22" by code_simp+
  from big_bond a b c d show ?thesis by (intro conjI)
qed

text \<open>
  Claim C10. The partner list and the count list have the same length, no partner
  occurs twice, and the count at each position is the number of occurrences of the
  partner at that position in the pool selected for the mode.
\<close>

theorem aligned_distinct_exact:
  assumes "characterize_context lf df g mode tf tv = Inr (lab, ks, vs)"
    and "link_pool lf df tf tv = Inr flat"
    and "select_mode mode g flat = Inr (sel, l)"
  shows "length ks = length vs \<and> distinct ks \<and>
         (\<forall>i < length ks. vs ! i = count_list sel (ks ! i))"
proof -
  let ?R = "filter (\<lambda>k. 10 < snd k) (most_common (Counter sel))"
  from characterize_context_Inr[OF assms]
  have ks: "ks = map fst ?R" and vs: "vs = map snd ?R"
    by (simp_all add: above_threshold_def Let_def)
  have "vs ! i = count_list sel (ks ! i)" if "i < length ks" for i
  proof -
    from that have i: "i < length ?R" by (simp add: ks)
    then have "?R ! i \<in> set ?R" by (rule nth_mem)
    then have "(fst (?R ! i), snd (?R ! i)) \<in> set ?R" by simp
    then have "snd (?R ! i) = count_list sel (fst (?R ! i))" by (blast dest: kept_entryD)
    with i show ?thesis by (simp add: ks vs)
  qed
  moreover have "distinct ks" unfolding ks by (rule kept_distinct)
  moreover have "length ks = length vs" by (simp add: ks vs)
  ultimately show ?thesis by blast
qed

text \<open>The same call: three partners, three counts, each the exact tally.\<close>

theorem aligned_distinct_exact_witness:
  "characterize_context demo_link_find big_table ''b1-4'' ''bond'' ''Kingdom'' ''All'' =
     Inr (''Observed monosaccharides making bond b1-4 (Kingdom = All)'',
          [''Gal'', ''Man'', ''GlcNAc''], [12, 11, 11]) \<and>
   length [''Gal'', ''Man'', ''GlcNAc''] = length [12, 11, 11 :: nat] \<and>
   distinct [''Gal'', ''Man'', ''GlcNAc''] \<and>
   count_list big_selected ''Gal'' = 12 \<and>
   count_list big_selected ''Man'' = 11 \<and>
   count_list big_selected ''GlcNAc'' = 11"
proof -
  note t = aligned_distinct_exact[OF big_bond big_pool big_select]
  from t have all: "\<forall>i < 3. [12, 11, 11 :: nat] ! i = count_list big_selected ([''Gal'', ''Man'', ''GlcNAc''] ! i)"
    by simp
  from all[rule_format, of 0] have a: "count_list big_selected ''Gal'' = 12" by simp
  from all[rule_format, of 1] have b: "count_list big_selected ''Man'' = 11" by simp
  from all[rule_format, of 2] have c: "count_list big_selected ''GlcNAc'' = 11" by simp
  from t have d: "length [''Gal'', ''Man'', ''GlcNAc''] = length [12, 11, 11 :: nat]"
    and e: "distinct [''Gal'', ''Man'', ''GlcNAc'']" by blast+
  from big_bond d e a b c show ?thesis by (intro conjI)
qed

subsection \<open>Glycoletters without a match and empty filtered sets\<close>

text \<open>
  Claim C8, as amended. When the filter returns the empty set, the counter returns
  \<open>(0, 0)\<close>, whatever the matcher does, and the characterizer under a recognized mode
  returns empty lists, whatever \<open>link_find\<close> does. When the filter returns the glycans
  \<open>gs\<close> and the matcher finds no match of the glycoletter, read as a regular expression,
  in any of them, the counter returns \<open>(0, 0)\<close>. When the tokens of the pool are triples
  with no field equal to the glycoletter (as they are when \<open>link_find\<close> only gives
  triples of text of the glycan and the glycoletter is text of no filtered glycan), the
  characterizer under a recognized mode returns empty lists. None of these calls raises.
\<close>

theorem no_match_gives_empty_results:
  "(filtered_glycans df tf tv = Inr [] \<longrightarrow>
      main_v_side_branch finditer df g tf tv = Inr (0, 0)) \<and>
   (filtered_glycans df tf tv = Inr gs \<and> (\<forall>s \<in> set gs. finditer g s = Inr []) \<longrightarrow>
      main_v_side_branch finditer df g tf tv = Inr (0, 0)) \<and>
   ((mode = ''bond'' \<or> mode = ''sugar'' \<or> mode = ''sugarbond'') \<and>
    filtered_glycans df tf tv = Inr [] \<longrightarrow>
      (\<exists>lab. characterize_context lf df g mode tf tv = Inr (lab, [], []))) \<and>
   ((mode = ''bond'' \<or> mode = ''sugar'' \<or> mode = ''sugarbond'') \<and>
    link_pool lf df tf tv = Inr flat \<and>
    (\<forall>k \<in> set flat. is_triple k \<and> g \<notin> set (py_split CHR ''*'' k)) \<longrightarrow>
      (\<exists>lab. characterize_context lf df g mode tf tv = Inr (lab, [], []))) \<and>
   ((mode = ''bond'' \<or> mode = ''sugar'' \<or> mode = ''sugarbond'') \<and>
    filtered_glycans df tf tv = Inr gs \<and>
    (\<forall>s \<in> set gs. fields_occur lf s \<and> \<not> py_in g s) \<longrightarrow>
      (\<exists>lab. characterize_context lf df g mode tf tv = Inr (lab, [], [])))"
proof (intro conjI impI)
  assume "filtered_glycans df tf tv = Inr []"
  then show "main_v_side_branch finditer df g tf tv = Inr (0, 0)"
    by (simp add: main_v_side_branch_def)
next
  assume "filtered_glycans df tf tv = Inr gs \<and> (\<forall>s \<in> set gs. finditer g s = Inr [])"
  then show "main_v_side_branch finditer df g tf tv = Inr (0, 0)"
    by (simp add: main_v_side_branch_def scan_glycans_Nil)
next
  assume h: "(mode = ''bond'' \<or> mode = ''sugar'' \<or> mode = ''sugarbond'') \<and>
             filtered_glycans df tf tv = Inr []"
  then have "link_pool lf df tf tv = Inr []" by (simp add: link_pool_def)
  with h show "\<exists>lab. characterize_context lf df g mode tf tv = Inr (lab, [], [])"
    by (intro recognized_absent[where flat="[]"]) simp_all
next
  assume "(mode = ''bond'' \<or> mode = ''sugar'' \<or> mode = ''sugarbond'') \<and>
          link_pool lf df tf tv = Inr flat \<and>
          (\<forall>k \<in> set flat. is_triple k \<and> g \<notin> set (py_split CHR ''*'' k))"
  then show "\<exists>lab. characterize_context lf df g mode tf tv = Inr (lab, [], [])"
    by (intro recognized_absent[where flat=flat]) simp_all
next
  assume h: "(mode = ''bond'' \<or> mode = ''sugar'' \<or> mode = ''sugarbond'') \<and>
          filtered_glycans df tf tv = Inr gs \<and>
          (\<forall>s \<in> set gs. fields_occur lf s \<and> \<not> py_in g s)"
  then have p: "link_pool lf df tf tv = Inr (concat (map lf gs))"
    by (simp add: link_pool_def)
  from h have "\<forall>k \<in> set (concat (map lf gs)). is_triple k \<and> g \<notin> set (py_split CHR ''*'' k)"
    by (intro fields_occur_absent) simp
  with h p show "\<exists>lab. characterize_context lf df g mode tf tv = Inr (lab, [], [])"
    by (intro recognized_absent[where flat="concat (map lf gs)"]) simp_all
qed

text \<open>
  No row of \<open>small_table\<close> has the kingdom \<open>Fungi\<close>: the counter returns \<open>(0, 0)\<close>
  even with a matcher that raises on every call. \<open>Xyl\<close> is a literal pattern, it is in
  no glycan of the table and in no token of its pool.
\<close>

theorem no_match_gives_empty_results_witness:
  "filtered_glycans small_table ''Kingdom'' ''Fungi'' = Inr [] \<and>
   main_v_side_branch broken_finditer small_table ''['' ''Kingdom'' ''Fungi'' = Inr (0, 0) \<and>
   characterize_context demo_link_find small_table ''Gal'' ''sugar'' ''Kingdom'' ''Fungi'' =
     Inr (''Observed monosaccharides paired with Gal (Kingdom = Fungi)'', [], []) \<and>
   filtered_glycans small_table ''Kingdom'' ''All'' = Inr (map glycan small_table) \<and>
   literal_pattern ''Xyl'' \<and>
   list_all (\<lambda>s. \<not> py_in ''Xyl'' s) (map glycan small_table) \<and>
   list_all (\<lambda>s. plain_finditer ''Xyl'' s = Inr []) (map glycan small_table) \<and>
   main_v_side_branch plain_finditer small_table ''Xyl'' ''Kingdom'' ''All'' = Inr (0, 0) \<and>
   list_all (fields_occur demo_link_find) (map glycan small_table) \<and>
   link_pool demo_link_find small_table ''Kingdom'' ''All'' =
     Inr (concat (map demo_link_find (map glycan small_table))) \<and>
   list_all (\<lambda>k. is_triple k \<and> ''Xyl'' \<notin> set (py_split CHR ''*'' k))
     (concat (map demo_link_find (map glycan small_table))) \<and>
   characterize_context demo_link_find small_table ''Xyl'' ''bond'' ''Kingdom'' ''All'' =
     Inr (''Observed monosaccharides making bond Xyl (Kingdom = All)'', [], []) \<and>
   characterize_context demo_link_find small_table ''Xyl'' ''sugarbond'' ''Kingdom'' ''All'' =
     Inr (''Observed bonds made by Xyl (Kingdom = All)'', [], [])"
proof -
  let ?gs = "map glycan small_table"
  let ?flat = "concat (map demo_link_find ?gs)"
  have e: "filtered_glycans small_table ''Kingdom'' ''Fungi'' = Inr []" by code_simp
  have f: "filtered_glycans small_table ''Kingdom'' ''All'' = Inr ?gs"
    by (rule filtered_glycans_All)
  have p: "link_pool demo_link_find small_table ''Kingdom'' ''All'' = Inr ?flat"
    using f by (rule link_pool_returns)
  have lit: "literal_pattern ''Xyl''" by code_simp
  have a1: "list_all (\<lambda>s. \<not> py_in ''Xyl'' s) ?gs" by code_simp
  have a2: "list_all (\<lambda>s. plain_finditer ''Xyl'' s = Inr []) ?gs" by code_simp
  have a3: "list_all (fields_occur demo_link_find) ?gs" by code_simp
  have a4: "list_all (\<lambda>k. is_triple k \<and> ''Xyl'' \<notin> set (py_split CHR ''*'' k)) ?flat"
    by code_simp
  note t1 = no_match_gives_empty_results[where df=small_table and tf="''Kingdom''"
      and tv="''Fungi''" and finditer=broken_finditer and g="''[''" and mode="''sugar''"
      and lf=demo_link_find and gs="[]" and flat="[]"]
  note t2 = no_match_gives_empty_results[where df=small_table and tf="''Kingdom''"
      and tv="''Fungi''" and finditer=broken_finditer and g="''Gal''" and mode="''sugar''"
      and lf=demo_link_find and gs="[]" and flat="[]"]
  note t3 = no_match_gives_empty_results[where df=small_table and tf="''Kingdom''"
      and tv="''All''" and finditer=plain_finditer and g="''Xyl''" and mode="''bond''"
      and lf=demo_link_find and gs="?gs" and flat="?flat"]
  note t4 = no_match_gives_empty_results[where df=small_table and tf="''Kingdom''"
      and tv="''All''" and finditer=plain_finditer and g="''Xyl''" and mode="''sugarbond''"
      and lf=demo_link_find and gs="?gs" and flat="?flat"]
  from t1[THEN conjunct1] e
  have r1: "main_v_side_branch broken_finditer small_table ''['' ''Kingdom'' ''Fungi'' = Inr (0, 0)"
    by (rule mp)
  have m2: "(''sugar'' = ''bond'' \<or> ''sugar'' = ''sugar'' \<or> ''sugar'' = ''sugarbond'') \<and>
            filtered_glycans small_table ''Kingdom'' ''Fungi'' = Inr []"
    using e by simp
  from t2[THEN conjunct2, THEN conjunct2, THEN conjunct1, THEN mp, OF m2] obtain lab where
    "characterize_context demo_link_find small_table ''Gal'' ''sugar'' ''Kingdom'' ''Fungi'' =
       Inr (lab, [], [])"
    by (elim exE)
  moreover have "characterize_context demo_link_find small_table ''Gal'' ''sugar'' ''Kingdom'' ''Fungi'' =
     Inr (''Observed monosaccharides paired with Gal (Kingdom = Fungi)'', [], [])"
    by code_simp
  ultimately have r2: "characterize_context demo_link_find small_table ''Gal'' ''sugar'' ''Kingdom'' ''Fungi'' =
     Inr (''Observed monosaccharides paired with Gal (Kingdom = Fungi)'', [], [])"
    by (simp only:)
  from a2 have n2: "\<forall>s \<in> set ?gs. plain_finditer ''Xyl'' s = Inr []"
    by (simp only: list_all_iff)
  from t3[THEN conjunct2, THEN conjunct1, THEN mp, OF conjI[OF f n2]]
  have r3: "main_v_side_branch plain_finditer small_table ''Xyl'' ''Kingdom'' ''All'' = Inr (0, 0)" .
  from a4 have n4: "\<forall>k \<in> set ?flat. is_triple k \<and> ''Xyl'' \<notin> set (py_split CHR ''*'' k)"
    by (simp only: list_all_iff)
  have m3: "''bond'' = ''bond'' \<or> ''bond'' = ''sugar'' \<or> ''bond'' = ''sugarbond''" by simp
  from t3[THEN conjunct2, THEN conjunct2, THEN conjunct2, THEN conjunct1, THEN mp,
          OF conjI[OF m3 conjI[OF p n4]]]
  obtain lab3 where
    l3: "characterize_context demo_link_find small_table ''Xyl'' ''bond'' ''Kingdom'' ''All'' =
           Inr (lab3, [], [])"
    by (elim exE)
  have "characterize_context demo_link_find small_table ''Xyl'' ''bond'' ''Kingdom'' ''All'' =
     Inr (''Observed monosaccharides making bond Xyl (Kingdom = All)'', [], [])"
    by code_simp
  with l3 have r4: "characterize_context demo_link_find small_table ''Xyl'' ''bond'' ''Kingdom'' ''All'' =
     Inr (''Observed monosaccharides making bond Xyl (Kingdom = All)'', [], [])"
    by (simp only:)
  from a1 a3 have n5: "\<forall>s \<in> set ?gs. fields_occur demo_link_find s \<and> \<not> py_in ''Xyl'' s"
    by (simp only: list_all_iff) blast
  have m4: "''sugarbond'' = ''bond'' \<or> ''sugarbond'' = ''sugar'' \<or> ''sugarbond'' = ''sugarbond''"
    by simp
  from t4[THEN conjunct2, THEN conjunct2, THEN conjunct2, THEN conjunct2, THEN mp,
          OF conjI[OF m4 conjI[OF f n5]]]
  obtain lab4 where
    l4: "characterize_context demo_link_find small_table ''Xyl'' ''sugarbond'' ''Kingdom'' ''All'' =
           Inr (lab4, [], [])"
    by (elim exE)
  have "characterize_context demo_link_find small_table ''Xyl'' ''sugarbond'' ''Kingdom'' ''All'' =
     Inr (''Observed bonds made by Xyl (Kingdom = All)'', [], [])"
    by code_simp
  with l4 have r5: "characterize_context demo_link_find small_table ''Xyl'' ''sugarbond'' ''Kingdom'' ''All'' =
     Inr (''Observed bonds made by Xyl (Kingdom = All)'', [], [])"
    by (simp only:)
  from e r1 r2 f lit a1 a2 r3 a3 p a4 r4 r5 show ?thesis by (intro conjI)
qed

text \<open>
  Claim C8 as stated fails. The glycoletter is a regular expression to the counter:
  \<open>b1-?\<close> is text of no glycan of \<open>small_table\<close> and yet matches four times in them,
  and \<open>*\<close> is text of none of them and makes the counter raise.
\<close>

theorem absent_text_matches_or_raises:
  "\<not> py_in ''b1-?'' ''Gal(b1-4)GlcNAc'' \<and>
   \<not> py_in ''b1-?'' ''Man(b1-4)GlcNAc(b1-4)GlcNAc'' \<and>
   \<not> py_in ''b1-?'' ''Gal(b1-4)[Fuc(a1-3)]GlcNAc'' \<and>
   \<not> py_in ''*'' ''Gal(b1-4)GlcNAc'' \<and>
   \<not> py_in ''*'' ''Man(b1-4)GlcNAc(b1-4)GlcNAc'' \<and>
   \<not> py_in ''*'' ''Gal(b1-4)[Fuc(a1-3)]GlcNAc'' \<and>
   filtered_glycans small_table ''Kingdom'' ''All'' =
     Inr [''Gal(b1-4)GlcNAc'', ''Man(b1-4)GlcNAc(b1-4)GlcNAc'', ''Gal(b1-4)[Fuc(a1-3)]GlcNAc''] \<and>
   main_v_side_branch recorded_finditer small_table ''b1-?'' ''Kingdom'' ''All'' = Inr (4, 0) \<and>
   main_v_side_branch recorded_finditer small_table ''*'' ''Kingdom'' ''All'' = Inl RegexError"
  by code_simp


end
